theory Spec2Isabelle
  imports Complex_Main "HOL-Library.Sublist"
begin

section \<open>The demo recommender of \<^verbatim>\<open>Chatbot_Recommender.py\<close>\<close>

text \<open>
  The theory embeds \<^verbatim>\<open>_genre_overlap\<close> and \<^verbatim>\<open>demo_recommend\<close>.

  Modelling decisions:
  \<^item> A Python \<^verbatim>\<open>str\<close> is a \<open>string\<close> holding its UTF-8 bytes. \<^verbatim>\<open>str.lower\<close>
    maps the bytes \<open>A\<close> to \<open>Z\<close> to \<open>a\<close> to \<open>z\<close> and leaves every other byte alone;
    this is what Python does on ASCII text and on Hangul (which has no case). Cased
    letters beyond ASCII are outside the model.
  \<^item> A Python \<^verbatim>\<open>float\<close> is a \<open>real\<close>: scores are computed in exact arithmetic,
    rounding is not modelled.
  \<^item> A book tuple \<^verbatim>\<open>(title, author, year, tone, genres, popularity)\<close> is a record whose
    fields carry the names the source unpacks the tuple into.
  \<^item> The dictionary \<^verbatim>\<open>prefs\<close> is a record of the three keys the function reads; a
    field is \<open>None\<close> when the key is absent (for \<^verbatim>\<open>tone\<close> also when it holds
    Python's \<^verbatim>\<open>None\<close>), and \<^verbatim>\<open>prefs.get\<close> supplies the default.
  \<^item> The module globals \<^verbatim>\<open>DEMO_DB\<close> and \<^verbatim>\<open>CURRENT_YEAR\<close> that the function reads are
    parameters (\<open>catalog\<close>, \<open>CURRENT_YEAR\<close>) of the model.
  \<^item> The only operation of the function that can raise on well-typed input is the
    division of \<^verbatim>\<open>_genre_overlap\<close>; it is modelled with an error result, which the
    callers propagate as the exception would.
\<close>

subsection \<open>Data\<close>

record book =
  title :: string
  author :: string
  year :: int
  btone :: string
  bgenres :: "string list"
  popularity :: real

record prefs =
  genres :: "string list option"
  tone :: "string option"
  recent_only :: "bool option"

text \<open>An entry of \<^verbatim>\<open>scored\<close> and of \<^verbatim>\<open>picked\<close>: \<^verbatim>\<open>(rec, score, why)\<close>.\<close>

type_synonym scored = "book \<times> real \<times> string list"

datatype error = ZeroDivisionError

definition RECENT_YEARS :: int where
  "RECENT_YEARS = 5"

definition W_GENRE :: real where
  "W_GENRE = 0.55"

definition W_TONE :: real where
  "W_TONE = 0.3"

definition W_RECENT :: real where
  "W_RECENT = 0.15"

subsection \<open>Strings\<close>

definition chr_lower :: "char \<Rightarrow> char" where
  "chr_lower c =
     (let n = (of_char c :: nat) in if 65 \<le> n \<and> n \<le> 90 then char_of (n + 32) else c)"

definition str_lower :: "string \<Rightarrow> string" where
  "str_lower s = map chr_lower s"

text \<open>
  The rationale tags, as UTF-8 bytes. In source order: "genre match", "tone match",
  "recent 5 years filter", "discovery weighting", "fame weighting", "balanced weighting".
\<close>

definition tag_genre :: string where
  "tag_genre = [CHR 0xEC, CHR 0x9E, CHR 0xA5, CHR 0xEB, CHR 0xA5, CHR 0xB4, CHR 0x20,
                CHR 0xEC, CHR 0x9D, CHR 0xBC, CHR 0xEC, CHR 0xB9, CHR 0x98]"

definition tag_tone :: string where
  "tag_tone = [CHR 0xED, CHR 0x86, CHR 0xA4, CHR 0x20, CHR 0xEC, CHR 0x9D, CHR 0xBC,
               CHR 0xEC, CHR 0xB9, CHR 0x98]"

definition tag_recent :: string where
  "tag_recent = [CHR 0xEC, CHR 0xB5, CHR 0x9C, CHR 0xEA, CHR 0xB7, CHR 0xBC, CHR 0x20,
                 CHR 0x35, CHR 0xEB, CHR 0x85, CHR 0x84, CHR 0x20, CHR 0xED, CHR 0x95,
                 CHR 0x84, CHR 0xED, CHR 0x84, CHR 0xB0]"

definition tag_discover :: string where
  "tag_discover = [CHR 0xEB, CHR 0xB0, CHR 0x9C, CHR 0xEA, CHR 0xB5, CHR 0xB4, CHR 0x20,
                   CHR 0xEA, CHR 0xB0, CHR 0x80, CHR 0xEC, CHR 0xA4, CHR 0x91]"

definition tag_famous :: string where
  "tag_famous = [CHR 0xEC, CHR 0x9C, CHR 0xA0, CHR 0xEB, CHR 0xAA, CHR 0x85, CHR 0xEB,
                 CHR 0x8F, CHR 0x84, CHR 0x20, CHR 0xEA, CHR 0xB0, CHR 0x80, CHR 0xEC,
                 CHR 0xA4, CHR 0x91]"

definition tag_balanced :: string where
  "tag_balanced = [CHR 0xEA, CHR 0xB7, CHR 0xA0, CHR 0xED, CHR 0x98, CHR 0x95, CHR 0x20,
                   CHR 0xEA, CHR 0xB0, CHR 0x80, CHR 0xEC, CHR 0xA4, CHR 0x91]"

subsection \<open>\<^verbatim>\<open>_genre_overlap\<close>\<close>

text \<open>Python's \<^verbatim>\<open>a / b\<close> on integers: true division, raising on a zero divisor.\<close>

definition truediv :: "int \<Rightarrow> int \<Rightarrow> error + real" where
  "truediv a b = (if b = 0 then Inl ZeroDivisionError else Inr (real_of_int a / real_of_int b))"

definition genre_overlap :: "string list \<Rightarrow> string list \<Rightarrow> error + real" where
  "genre_overlap user_genres book_genres =
     (let ug = set (map str_lower user_genres);
          bg = set (map str_lower book_genres)
      in if ug = {} then Inr 0.2
         else truediv (int (card (ug \<inter> bg))) (max 1 (int (card ug))))"

subsection \<open>\<^verbatim>\<open>demo_recommend\<close>: scoring\<close>

text \<open>Truth value of \<^verbatim>\<open>tone\<close>: \<^verbatim>\<open>None\<close> and the empty string are false.\<close>

definition truthy :: "string option \<Rightarrow> bool" where
  "truthy t = (case t of None \<Rightarrow> False | Some s \<Rightarrow> s \<noteq> [])"

text \<open>The mode's popularity weights \<^verbatim>\<open>(pop_alpha, pop_beta)\<close> (source lines 67 to 72).\<close>

definition pop_weights :: "string \<Rightarrow> real \<Rightarrow> real \<times> real" where
  "pop_weights mode explore_strength =
     (if mode = ''famous'' then (0.30, 0.00)
      else if mode = ''balanced'' then (0.15, 0.10)
      else (0.00, explore_strength))"

definition s_tone :: "string option \<Rightarrow> string \<Rightarrow> real" where
  "s_tone tone' btone' =
     (if truthy tone' \<and> tone' = Some btone' then 1.0
      else (if \<not> truthy tone' then 0.5 else 0.2))"

definition s_recent :: "int \<Rightarrow> int \<Rightarrow> real" where
  "s_recent CURRENT_YEAR year' =
     (if year' \<ge> CURRENT_YEAR - RECENT_YEARS then 1.0 else 0.5)"

definition pop_score :: "real \<Rightarrow> real \<Rightarrow> real \<Rightarrow> real" where
  "pop_score pop_alpha pop_beta popularity' =
     pop_alpha * popularity' + pop_beta * (1.0 - popularity')"

text \<open>The rationale list \<^verbatim>\<open>why\<close> (source lines 89 to 98).\<close>

definition why_tags :: "real \<Rightarrow> real \<Rightarrow> bool \<Rightarrow> string \<Rightarrow> string list" where
  "why_tags sg st recent_only' mode =
     (if sg > 0.0 then [tag_genre] else []) @
     (if st = 1.0 then [tag_tone] else []) @
     (if recent_only' then [tag_recent] else []) @
     (if mode = ''discover'' then [tag_discover]
      else if mode = ''famous'' then [tag_famous]
      else [tag_balanced])"

text \<open>The body of the scoring loop for a record that passed the filter (lines 80 to 100).\<close>

definition score_book ::
  "int \<Rightarrow> string list \<Rightarrow> string option \<Rightarrow> bool \<Rightarrow> string \<Rightarrow> real \<Rightarrow> real \<Rightarrow> book
     \<Rightarrow> error + scored" where
  "score_book CURRENT_YEAR genres' tone' recent_only' mode pop_alpha pop_beta rec =
     (case genre_overlap genres' (bgenres rec) of
        Inl err \<Rightarrow> Inl err
      | Inr sg \<Rightarrow>
          (let st = s_tone tone' (btone rec);
               sr = s_recent CURRENT_YEAR (year rec);
               ps = pop_score pop_alpha pop_beta (popularity rec);
               score = (W_GENRE * sg + W_TONE * st + W_RECENT * sr) + ps;
               why = why_tags sg st recent_only' mode
           in Inr (rec, score, why)))"

text \<open>The scoring loop (lines 74 to 100), the list \<^verbatim>\<open>scored\<close> threaded through.\<close>

fun score_loop ::
  "int \<Rightarrow> string list \<Rightarrow> string option \<Rightarrow> bool \<Rightarrow> string \<Rightarrow> real \<Rightarrow> real \<Rightarrow> book list
     \<Rightarrow> scored list \<Rightarrow> error + scored list" where
  "score_loop CURRENT_YEAR genres' tone' recent_only' mode pop_alpha pop_beta [] scored =
     Inr scored"
| "score_loop CURRENT_YEAR genres' tone' recent_only' mode pop_alpha pop_beta (rec # rest) scored =
     (if recent_only' \<and> year rec < CURRENT_YEAR - RECENT_YEARS then
        score_loop CURRENT_YEAR genres' tone' recent_only' mode pop_alpha pop_beta rest scored
      else
        (case score_book CURRENT_YEAR genres' tone' recent_only' mode pop_alpha pop_beta rec of
           Inl err \<Rightarrow> Inl err
         | Inr entry \<Rightarrow>
             score_loop CURRENT_YEAR genres' tone' recent_only' mode pop_alpha pop_beta rest
               (scored @ [entry])))"

text \<open>
  Lines 58 to 100 of \<^verbatim>\<open>demo_recommend\<close>: reading \<^verbatim>\<open>prefs\<close>
  (\<^verbatim>\<open>prefs.get('genres', [])\<close>, \<^verbatim>\<open>prefs.get('tone')\<close>, \<^verbatim>\<open>prefs.get('recent_only', False)\<close>)
  and building \<^verbatim>\<open>scored\<close>.
\<close>

definition get_genres :: "prefs \<Rightarrow> string list" where
  "get_genres p = (case genres p of None \<Rightarrow> [] | Some g \<Rightarrow> g)"

definition get_recent_only :: "prefs \<Rightarrow> bool" where
  "get_recent_only p = (case recent_only p of None \<Rightarrow> False | Some b \<Rightarrow> b)"

definition scored_candidates ::
  "book list \<Rightarrow> int \<Rightarrow> prefs \<Rightarrow> string \<Rightarrow> real \<Rightarrow> error + scored list" where
  "scored_candidates catalog CURRENT_YEAR p mode explore_strength =
     (let genres' = get_genres p;
          tone' = tone p;
          recent_only' = get_recent_only p;
          (pop_alpha, pop_beta) = pop_weights mode explore_strength
      in score_loop CURRENT_YEAR genres' tone' recent_only' mode pop_alpha pop_beta catalog [])"

subsection \<open>\<^verbatim>\<open>demo_recommend\<close>: ranking and selection\<close>

text \<open>
  \<^verbatim>\<open>scored.sort(key=lambda x: x[1], reverse=True)\<close>: Python's sort is stable, also with
  \<^verbatim>\<open>reverse=True\<close>, so entries of equal score keep their order. The stable insertion
  sort \<open>sort_key\<close> on the negated score is the same permutation.
\<close>

definition sort_desc :: "scored list \<Rightarrow> scored list" where
  "sort_desc scored = sort_key (\<lambda>x. - fst (snd x)) scored"

text \<open>The selection loop (lines 104 to 113).\<close>

fun pick_loop :: "int \<Rightarrow> scored list \<Rightarrow> scored list \<Rightarrow> string set \<Rightarrow> scored list" where
  "pick_loop k [] picked seen_authors = picked"
| "pick_loop k ((rec, sc, why) # rest) picked seen_authors =
     (if author rec \<in> seen_authors \<and> int (length picked) < k - 1 then
        pick_loop k rest picked seen_authors
      else
        (let picked' = picked @ [(rec, sc, why)];
             seen_authors' = insert (author rec) seen_authors
         in if int (length picked') \<ge> k then picked'
            else pick_loop k rest picked' seen_authors'))"

definition demo_recommend ::
  "book list \<Rightarrow> int \<Rightarrow> prefs \<Rightarrow> int \<Rightarrow> string \<Rightarrow> real \<Rightarrow> error + scored list" where
  "demo_recommend catalog CURRENT_YEAR p k mode explore_strength =
     (case scored_candidates catalog CURRENT_YEAR p mode explore_strength of
        Inl err \<Rightarrow> Inl err
      | Inr scored \<Rightarrow> Inr (pick_loop k (sort_desc scored) [] {}))"

subsection \<open>The catalog \<^verbatim>\<open>DEMO_DB\<close>\<close>

text \<open>
  The tone and genre labels of the catalog, as UTF-8 bytes (Korean in the source):
  calm, thrilling, serious, humorous, adventurous; novel, classic, mystery, coming of age,
  fantasy, non-fiction, history, essay, SF, travel.
\<close>

definition tone_calm :: string where
  "tone_calm = [CHR 0xEC, CHR 0x9E, CHR 0x94, CHR 0xEC, CHR 0x9E, CHR 0x94]"

definition tone_thrill :: string where
  "tone_thrill = [CHR 0xEC, CHR 0x8A, CHR 0xA4, CHR 0xEB, CHR 0xA6, CHR 0xB4]"

definition tone_serious :: string where
  "tone_serious = [CHR 0xEC, CHR 0xA7, CHR 0x84, CHR 0xEC, CHR 0xA7, CHR 0x80]"

definition tone_humour :: string where
  "tone_humour = [CHR 0xEC, CHR 0x9C, CHR 0xA0, CHR 0xEB, CHR 0xA8, CHR 0xB8]"

definition tone_adventure :: string where
  "tone_adventure = [CHR 0xEB, CHR 0xAA, CHR 0xA8, CHR 0xED, CHR 0x97, CHR 0x98]"

definition genre_novel :: string where
  "genre_novel = [CHR 0xEC, CHR 0x86, CHR 0x8C, CHR 0xEC, CHR 0x84, CHR 0xA4]"

definition genre_classic :: string where
  "genre_classic = [CHR 0xEA, CHR 0xB3, CHR 0xA0, CHR 0xEC, CHR 0xA0, CHR 0x84]"

definition genre_mystery :: string where
  "genre_mystery = [CHR 0xEB, CHR 0xAF, CHR 0xB8, CHR 0xEC, CHR 0x8A, CHR 0xA4, CHR 0xED,
                     CHR 0x84, CHR 0xB0, CHR 0xEB, CHR 0xA6, CHR 0xAC]"

definition genre_growth :: string where
  "genre_growth = [CHR 0xEC, CHR 0x84, CHR 0xB1, CHR 0xEC, CHR 0x9E, CHR 0xA5]"

definition genre_fantasy :: string where
  "genre_fantasy = [CHR 0xED, CHR 0x8C, CHR 0x90, CHR 0xED, CHR 0x83, CHR 0x80, CHR 0xEC,
                     CHR 0xA7, CHR 0x80]"

definition genre_nonfiction :: string where
  "genre_nonfiction = [CHR 0xEB, CHR 0x85, CHR 0xBC, CHR 0xED, CHR 0x94, CHR 0xBD,
                        CHR 0xEC, CHR 0x85, CHR 0x98]"

definition genre_history :: string where
  "genre_history = [CHR 0xEC, CHR 0x97, CHR 0xAD, CHR 0xEC, CHR 0x82, CHR 0xAC]"

definition genre_essay :: string where
  "genre_essay = [CHR 0xEC, CHR 0x97, CHR 0x90, CHR 0xEC, CHR 0x84, CHR 0xB8, CHR 0xEC,
                   CHR 0x9D, CHR 0xB4]"

definition genre_sf :: string where
  "genre_sf = ''SF''"

definition genre_travel :: string where
  "genre_travel = [CHR 0xEC, CHR 0x97, CHR 0xAC, CHR 0xED, CHR 0x96, CHR 0x89]"

text \<open>The twelve records, in source order (titles and authors as UTF-8 bytes).\<close>

text \<open>The Old Man and the Sea, Ernest Hemingway, 1952.\<close>

definition demo_book_1 :: book where
  "demo_book_1 =
     \<lparr>title = [CHR 0xEB, CHR 0x85, CHR 0xB8, CHR 0xEC, CHR 0x9D, CHR 0xB8, CHR 0xEA,
               CHR 0xB3, CHR 0xBC, CHR 0x20, CHR 0xEB, CHR 0xB0, CHR 0x94, CHR 0xEB,
               CHR 0x8B, CHR 0xA4],
      author = [CHR 0xEC, CHR 0x96, CHR 0xB4, CHR 0xEB, CHR 0x8B, CHR 0x88, CHR 0xEC,
                CHR 0x8A, CHR 0xA4, CHR 0xED, CHR 0x8A, CHR 0xB8, CHR 0x20, CHR 0xED,
                CHR 0x97, CHR 0xA4, CHR 0xEB, CHR 0xB0, CHR 0x8D, CHR 0xEC, CHR 0x9B,
                CHR 0xA8, CHR 0xEC, CHR 0x9D, CHR 0xB4],
      year = 1952, btone = tone_calm, bgenres = [genre_novel, genre_classic], popularity = 0.98\<rparr>"

text \<open>And Then There Were None, Agatha Christie, 1939.\<close>

definition demo_book_2 :: book where
  "demo_book_2 =
     \<lparr>title = [CHR 0xEA, CHR 0xB7, CHR 0xB8, CHR 0xEB, CHR 0xA6, CHR 0xAC, CHR 0xEA,
               CHR 0xB3, CHR 0xA0, CHR 0x20, CHR 0xEC, CHR 0x95, CHR 0x84, CHR 0xEB,
               CHR 0xAC, CHR 0xB4, CHR 0xEB, CHR 0x8F, CHR 0x84, CHR 0x20, CHR 0xEC,
               CHR 0x97, CHR 0x86, CHR 0xEC, CHR 0x97, CHR 0x88, CHR 0xEB, CHR 0x8B,
               CHR 0xA4],
      author = [CHR 0xEC, CHR 0x95, CHR 0x84, CHR 0xEA, CHR 0xB0, CHR 0x80, CHR 0xEC,
                CHR 0x82, CHR 0xAC, CHR 0x20, CHR 0xED, CHR 0x81, CHR 0xAC, CHR 0xEB,
                CHR 0xA6, CHR 0xAC, CHR 0xEC, CHR 0x8A, CHR 0xA4, CHR 0xED, CHR 0x8B,
                CHR 0xB0],
      year = 1939, btone = tone_thrill, bgenres = [genre_mystery, genre_novel], popularity = 0.97\<rparr>"

text \<open>Demian, Hermann Hesse, 1919.\<close>

definition demo_book_3 :: book where
  "demo_book_3 =
     \<lparr>title = [CHR 0xEB, CHR 0x8D, CHR 0xB0, CHR 0xEB, CHR 0xAF, CHR 0xB8, CHR 0xEC,
               CHR 0x95, CHR 0x88],
      author = [CHR 0xED, CHR 0x97, CHR 0xA4, CHR 0xEB, CHR 0xA5, CHR 0xB4, CHR 0xEB,
                CHR 0xA7, CHR 0x8C, CHR 0x20, CHR 0xED, CHR 0x97, CHR 0xA4, CHR 0xEC,
                CHR 0x84, CHR 0xB8],
      year = 1919, btone = tone_serious, bgenres = [genre_novel, genre_growth], popularity = 0.96\<rparr>"

text \<open>I Am a Cat, Natsume Soseki, 1905.\<close>

definition demo_book_4 :: book where
  "demo_book_4 =
     \<lparr>title = [CHR 0xEB, CHR 0x82, CHR 0x98, CHR 0xEB, CHR 0x8A, CHR 0x94, CHR 0x20,
               CHR 0xEA, CHR 0xB3, CHR 0xA0, CHR 0xEC, CHR 0x96, CHR 0x91, CHR 0xEC,
               CHR 0x9D, CHR 0xB4, CHR 0xEB, CHR 0xA1, CHR 0x9C, CHR 0xEC, CHR 0x86,
               CHR 0x8C, CHR 0xEC, CHR 0x9D, CHR 0xB4, CHR 0xEB, CHR 0x8B, CHR 0xA4],
      author = [CHR 0xEB, CHR 0x82, CHR 0x98, CHR 0xEC, CHR 0x93, CHR 0xB0, CHR 0xEB,
                CHR 0xA9, CHR 0x94, CHR 0x20, CHR 0xEC, CHR 0x86, CHR 0x8C, CHR 0xEC,
                CHR 0x84, CHR 0xB8, CHR 0xED, CHR 0x82, CHR 0xA4],
      year = 1905, btone = tone_humour, bgenres = [genre_novel, genre_classic], popularity = 0.9\<rparr>"

text \<open>Harry Potter and the Philosopher's Stone, J.K. Rowling, 1997.\<close>

definition demo_book_5 :: book where
  "demo_book_5 =
     \<lparr>title = [CHR 0xED, CHR 0x95, CHR 0xB4, CHR 0xEB, CHR 0xA6, CHR 0xAC, CHR 0x20,
               CHR 0xED, CHR 0x8F, CHR 0xAC, CHR 0xED, CHR 0x84, CHR 0xB0, CHR 0xEC,
               CHR 0x99, CHR 0x80, CHR 0x20, CHR 0xEB, CHR 0xA7, CHR 0x88, CHR 0xEB,
               CHR 0xB2, CHR 0x95, CHR 0xEC, CHR 0x82, CHR 0xAC, CHR 0xEC, CHR 0x9D,
               CHR 0x98, CHR 0x20, CHR 0xEB, CHR 0x8F, CHR 0x8C],
      author = [CHR 0x4A, CHR 0x2E, CHR 0x4B, CHR 0x2E, CHR 0x20, CHR 0xEB, CHR 0xA1,
                CHR 0xA4, CHR 0xEB, CHR 0xA7, CHR 0x81],
      year = 1997, btone = tone_adventure, bgenres = [genre_fantasy, genre_novel], popularity = 0.99\<rparr>"

text \<open>Sapiens, Yuval Harari, 2011.\<close>

definition demo_book_6 :: book where
  "demo_book_6 =
     \<lparr>title = [CHR 0xEC, CHR 0x82, CHR 0xAC, CHR 0xED, CHR 0x94, CHR 0xBC, CHR 0xEC,
               CHR 0x97, CHR 0x94, CHR 0xEC, CHR 0x8A, CHR 0xA4],
      author = [CHR 0xEC, CHR 0x9C, CHR 0xA0, CHR 0xEB, CHR 0xB0, CHR 0x9C, CHR 0x20,
                CHR 0xED, CHR 0x95, CHR 0x98, CHR 0xEB, CHR 0x9D, CHR 0xBC, CHR 0xEB,
                CHR 0xA6, CHR 0xAC],
      year = 2011, btone = tone_serious, bgenres = [genre_nonfiction, genre_history], popularity = 0.98\<rparr>"

text \<open>an essay collection, Alain de Botton, 2000.\<close>

definition demo_book_7 :: book where
  "demo_book_7 =
     \<lparr>title = [CHR 0xEC, CHR 0x9C, CHR 0xA0, CHR 0xED, CHR 0x98, CHR 0xB9, CHR 0xED,
               CHR 0x95, CHR 0x98, CHR 0xEB, CHR 0x8A, CHR 0x94, CHR 0x20, CHR 0xEC,
               CHR 0x97, CHR 0x90, CHR 0xEC, CHR 0x84, CHR 0xB8, CHR 0xEC, CHR 0x9D,
               CHR 0xB4],
      author = [CHR 0xEC, CHR 0x95, CHR 0x8C, CHR 0xEB, CHR 0x9E, CHR 0xAD, CHR 0x20,
                CHR 0xEB, CHR 0x93, CHR 0x9C, CHR 0x20, CHR 0xEB, CHR 0xB3, CHR 0xB4,
                CHR 0xED, CHR 0x86, CHR 0xB5],
      year = 2000, btone = tone_calm, bgenres = [genre_essay], popularity = 0.85\<rparr>"

text \<open>The Midnight Library, Matt Haig, 2020.\<close>

definition demo_book_8 :: book where
  "demo_book_8 =
     \<lparr>title = ''The Midnight Library'',
      author = ''Matt Haig'',
      year = 2020, btone = tone_calm, bgenres = [genre_novel], popularity = 0.9\<rparr>"

text \<open>Project Hail Mary, Andy Weir, 2021.\<close>

definition demo_book_9 :: book where
  "demo_book_9 =
     \<lparr>title = ''Project Hail Mary'',
      author = ''Andy Weir'',
      year = 2021, btone = tone_thrill, bgenres = [genre_sf, genre_novel], popularity = 0.92\<rparr>"

text \<open>a made-up essay book, 'arbitrary author A', 2018.\<close>

definition demo_book_10 :: book where
  "demo_book_10 =
     \<lparr>title = [CHR 0xEB, CHR 0x82, CHR 0x98, CHR 0xEC, CHR 0x9D, CHR 0x98, CHR 0x20,
               CHR 0xEC, CHR 0x82, CHR 0xB0, CHR 0xEC, CHR 0xB1, CHR 0x85, CHR 0xEC,
               CHR 0x9D, CHR 0x80, CHR 0x20, CHR 0xEA, CHR 0xB8, CHR 0xB8, CHR 0xEC,
               CHR 0x97, CHR 0x90, CHR 0xEC, CHR 0x84, CHR 0x9C, CHR 0x20, CHR 0xEC,
               CHR 0x8B, CHR 0x9C, CHR 0xEC, CHR 0x9E, CHR 0x91, CHR 0xEB, CHR 0x90,
               CHR 0x9C, CHR 0xEB, CHR 0x8B, CHR 0xA4],
      author = [CHR 0xEC, CHR 0x9E, CHR 0x84, CHR 0xEC, CHR 0x9D, CHR 0x98, CHR 0x20,
                CHR 0xEC, CHR 0x9E, CHR 0x91, CHR 0xEA, CHR 0xB0, CHR 0x80, CHR 0x41],
      year = 2018, btone = tone_calm, bgenres = [genre_essay], popularity = 0.3\<rparr>"

text \<open>a made-up novel, 'arbitrary author B', 2022.\<close>

definition demo_book_11 :: book where
  "demo_book_11 =
     \<lparr>title = [CHR 0xEB, CHR 0x8F, CHR 0x84, CHR 0xEC, CHR 0x8B, CHR 0x9C, CHR 0xEC,
               CHR 0x9D, CHR 0x98, CHR 0x20, CHR 0xEB, CHR 0x82, CHR 0xAE, CHR 0xEC,
               CHR 0x9D, CHR 0x80, CHR 0x20, CHR 0xEB, CHR 0xB3, CHR 0x84, CHR 0xEB,
               CHR 0x93, CHR 0xA4],
      author = [CHR 0xEC, CHR 0x9E, CHR 0x84, CHR 0xEC, CHR 0x9D, CHR 0x98, CHR 0x20,
                CHR 0xEC, CHR 0x9E, CHR 0x91, CHR 0xEA, CHR 0xB0, CHR 0x80, CHR 0x42],
      year = 2022, btone = tone_serious, bgenres = [genre_novel], popularity = 0.25\<rparr>"

text \<open>a made-up novel, 'arbitrary author C', 2023.\<close>

definition demo_book_12 :: book where
  "demo_book_12 =
     \<lparr>title = [CHR 0xEB, CHR 0xB0, CHR 0x94, CHR 0xEB, CHR 0x9E, CHR 0x8C, CHR 0xEC,
               CHR 0x9D, CHR 0xB4, CHR 0x20, CHR 0xEA, CHR 0xB7, CHR 0xB8, CHR 0xEB,
               CHR 0xA6, CHR 0xB0, CHR 0x20, CHR 0xEC, CHR 0xA7, CHR 0x80, CHR 0xEB,
               CHR 0x8F, CHR 0x84],
      author = [CHR 0xEC, CHR 0x9E, CHR 0x84, CHR 0xEC, CHR 0x9D, CHR 0x98, CHR 0x20,
                CHR 0xEC, CHR 0x9E, CHR 0x91, CHR 0xEA, CHR 0xB0, CHR 0x80, CHR 0x43],
      year = 2023, btone = tone_adventure, bgenres = [genre_novel, genre_travel], popularity = 0.2\<rparr>"

definition DEMO_DB :: "book list" where
  "DEMO_DB = [demo_book_1, demo_book_2, demo_book_3, demo_book_4,
              demo_book_5, demo_book_6, demo_book_7, demo_book_8,
              demo_book_9, demo_book_10, demo_book_11, demo_book_12]"

subsection \<open>The stated behaviour\<close>

text \<open>
  The definitions of this subsection follow the words of the specification; they are
  compared with the functions above.
\<close>

datatype ranking_mode = Famous | Balanced | Discover

text \<open>The mode keys the user interface passes (\<^verbatim>\<open>mode_key\<close>, source lines 193 and 201).\<close>

fun mode_key :: "ranking_mode \<Rightarrow> string" where
  "mode_key Famous = ''famous''"
| "mode_key Balanced = ''balanced''"
| "mode_key Discover = ''discover''"

text \<open>The table of popularity coefficients \<open>(\<alpha>, \<beta>)\<close>.\<close>

fun coefficients :: "ranking_mode \<Rightarrow> real \<Rightarrow> real \<times> real" where
  "coefficients Famous explorationStrength = (0.30, 0.00)"
| "coefficients Balanced explorationStrength = (0.15, 0.10)"
| "coefficients Discover explorationStrength = (0.00, explorationStrength)"

text \<open>
  Genre overlap of two genre sets: the neutral 0.2 when the user's set is empty, else the
  size of the intersection divided by the number of requested genres.
\<close>

definition genre_share :: "string set \<Rightarrow> string set \<Rightarrow> real" where
  "genre_share ug bg = (if ug = {} then 0.2 else real (card (ug \<inter> bg)) / real (card ug))"

text \<open>
  Tone match: 0.5 when no tone is specified (absent or empty), 1.0 when the specified tone
  is the book's, 0.2 when it differs.
\<close>

definition tone_match :: "string option \<Rightarrow> string \<Rightarrow> real" where
  "tone_match t bt =
     (case t of None \<Rightarrow> 0.5
      | Some s \<Rightarrow> if s = [] then 0.5 else if s = bt then 1.0 else 0.2)"

definition recency_bonus :: "int \<Rightarrow> int \<Rightarrow> real" where
  "recency_bonus currentYear y = (if y \<ge> currentYear - 5 then 1.0 else 0.5)"

definition composite :: "real \<Rightarrow> real \<Rightarrow> real \<Rightarrow> real \<times> real \<Rightarrow> real \<Rightarrow> real" where
  "composite g t r ab pop = 0.55 * g + 0.30 * t + 0.15 * r + fst ab * pop + snd ab * (1 - pop)"

text \<open>The composite score with the genre sets taken as they are given.\<close>

definition stated_score ::
  "int \<Rightarrow> string list \<Rightarrow> string option \<Rightarrow> ranking_mode \<Rightarrow> real \<Rightarrow> book \<Rightarrow> real" where
  "stated_score currentYear user_genres t m explorationStrength b =
     composite (genre_share (set user_genres) (set (bgenres b)))
       (tone_match t (btone b)) (recency_bonus currentYear (year b))
       (coefficients m explorationStrength) (popularity b)"

text \<open>The composite score with the genre sets compared in lower case.\<close>

definition folded_score ::
  "int \<Rightarrow> string list \<Rightarrow> string option \<Rightarrow> ranking_mode \<Rightarrow> real \<Rightarrow> book \<Rightarrow> real" where
  "folded_score currentYear user_genres t m explorationStrength b =
     composite (genre_share (str_lower ` set user_genres) (str_lower ` set (bgenres b)))
       (tone_match t (btone b)) (recency_bonus currentYear (year b))
       (coefficients m explorationStrength) (popularity b)"

text \<open>A book survives the \<^verbatim>\<open>recentOnly\<close> filter.\<close>

definition survives :: "int \<Rightarrow> bool \<Rightarrow> book \<Rightarrow> bool" where
  "survives currentYear recentOnly b = (\<not> (recentOnly \<and> year b < currentYear - 5))"

text \<open>
  The author-diversity walk in the specification's words: stop once \<open>k\<close> picks are
  accumulated or the list is exhausted; skip a candidate whose author has already been
  picked, unless the result is within one slot of being full.
\<close>

fun diversity_walk :: "int \<Rightarrow> scored list \<Rightarrow> scored list \<Rightarrow> scored list" where
  "diversity_walk k [] picked = picked"
| "diversity_walk k (c # rest) picked =
     (if int (length picked) \<ge> k then picked
      else if author (fst c) \<in> (author \<circ> fst) ` set picked \<and> int (length picked) < k - 1
        then diversity_walk k rest picked
      else diversity_walk k rest (picked @ [c]))"

subsection \<open>Example inputs\<close>

text \<open>A synthetic catalog of five books by one author.\<close>

definition book_x :: "string \<Rightarrow> int \<Rightarrow> real \<Rightarrow> book" where
  "book_x t y pop =
     \<lparr>title = t, author = ''Author X'', year = y, btone = ''calm'', bgenres = [''novel''],
      popularity = pop\<rparr>"

definition catalog_x :: "book list" where
  "catalog_x = [book_x ''X1'' 2001 0.5, book_x ''X2'' 2002 0.9, book_x ''X3'' 2003 0.7,
                book_x ''X4'' 2004 0.8, book_x ''X5'' 2005 0.6]"

definition prefs_none :: prefs where
  "prefs_none = \<lparr>genres = None, tone = None, recent_only = None\<rparr>"

definition prefs_recent :: prefs where
  "prefs_recent = \<lparr>genres = Some [], tone = None, recent_only = Some True\<rparr>"

text \<open>A request for the genre \<open>sf\<close> in lower case, and a book filed under \<open>SF\<close>.\<close>

definition prefs_sf :: prefs where
  "prefs_sf = \<lparr>genres = Some [''sf''], tone = None, recent_only = Some False\<rparr>"

definition book_sf :: book where
  "book_sf = \<lparr>title = ''Project Hail Mary'', author = ''Andy Weir'', year = 2021,
              btone = ''thrill'', bgenres = [''SF''], popularity = 0.92\<rparr>"

text \<open>The preferences of scenarios 1 and 3 of the specification.\<close>

definition prefs_fantasy :: prefs where
  "prefs_fantasy =
     \<lparr>genres = Some [genre_fantasy], tone = Some tone_adventure, recent_only = Some False\<rparr>"

definition prefs_novel :: prefs where
  "prefs_novel = \<lparr>genres = Some [genre_novel], tone = None, recent_only = Some False\<rparr>"

text \<open>A ranked list whose second entry repeats the author of the first.\<close>

definition walk_example :: "scored list" where
  "walk_example = [(book_x ''X1'' 2001 0.5, 0.9, []), (book_x ''X2'' 2002 0.9, 0.8, []),
                   (book_sf, 0.7, [])]"

subsection \<open>The entry the scoring loop appends, in closed form\<close>

definition entry_of ::
  "int \<Rightarrow> string list \<Rightarrow> string option \<Rightarrow> bool \<Rightarrow> string \<Rightarrow> real \<Rightarrow> real \<Rightarrow> book \<Rightarrow> scored" where
  "entry_of CURRENT_YEAR genres' tone' recent_only' mode pop_alpha pop_beta rec =
     (let sg = genre_share (str_lower ` set genres') (str_lower ` set (bgenres rec));
          st = s_tone tone' (btone rec)
      in (rec,
          (W_GENRE * sg + W_TONE * st + W_RECENT * s_recent CURRENT_YEAR (year rec))
            + pop_score pop_alpha pop_beta (popularity rec),
          why_tags sg st recent_only' mode))"

definition score_of :: "scored \<Rightarrow> real" where
  "score_of entry = fst (snd entry)"

section \<open>Auxiliary facts\<close>

lemma genre_overlap_Inr:
  "genre_overlap ug bg = Inr (genre_share (str_lower ` set ug) (str_lower ` set bg))"
proof (cases "ug = []")
  case True
  then show ?thesis by (simp add: genre_overlap_def genre_share_def)
next
  case False
  have fin: "finite (str_lower ` set ug)" by simp
  have ne: "str_lower ` set ug \<noteq> {}" using False by simp
  have "card (str_lower ` set ug) \<noteq> 0" using fin ne by (simp add: card_eq_0_iff)
  then have pos: "1 \<le> card (str_lower ` set ug)" by linarith
  then have m: "max 1 (int (card (str_lower ` set ug))) = int (card (str_lower ` set ug))"
    by simp
  show ?thesis using False pos
    by (simp add: genre_overlap_def genre_share_def truediv_def Let_def m)
qed

lemma score_book_Inr:
  "score_book cy g t ro mode a b rec = Inr (entry_of cy g t ro mode a b rec)"
  by (simp add: score_book_def entry_of_def genre_overlap_Inr Let_def)

lemma survives_iff:
  "survives cy ro rec \<longleftrightarrow> \<not> (ro \<and> year rec < cy - RECENT_YEARS)"
  by (simp add: survives_def RECENT_YEARS_def)

lemma score_loop_Inr:
  "score_loop cy g t ro mode a b cat scored =
     Inr (scored @ map (entry_of cy g t ro mode a b) (filter (survives cy ro) cat))"
proof (induction cat arbitrary: scored)
  case Nil
  show ?case by simp
next
  case (Cons rec rest)
  show ?case
  proof (cases "ro \<and> year rec < cy - RECENT_YEARS")
    case True
    then have "\<not> survives cy ro rec" by (simp add: survives_iff)
    moreover have "score_loop cy g t ro mode a b (rec # rest) scored =
                     score_loop cy g t ro mode a b rest scored"
      using True by auto
    ultimately show ?thesis using Cons.IH [of scored] by simp
  next
    case False
    then have "survives cy ro rec" by (simp add: survives_iff)
    moreover have "score_loop cy g t ro mode a b (rec # rest) scored =
                     score_loop cy g t ro mode a b rest (scored @ [entry_of cy g t ro mode a b rec])"
      using False by (auto simp: score_book_Inr)
    ultimately show ?thesis
      using Cons.IH [of "scored @ [entry_of cy g t ro mode a b rec]"] by simp
  qed
qed

lemma scored_candidates_Inr:
  "scored_candidates catalog cy p mode e =
     Inr (map (entry_of cy (get_genres p) (tone p) (get_recent_only p) mode
                 (fst (pop_weights mode e)) (snd (pop_weights mode e)))
            (filter (survives cy (get_recent_only p)) catalog))"
  by (simp add: scored_candidates_def score_loop_Inr Let_def split_beta)

lemma demo_recommend_Inr:
  "demo_recommend catalog cy p k mode e =
     Inr (pick_loop k
            (sort_desc (map (entry_of cy (get_genres p) (tone p) (get_recent_only p) mode
                               (fst (pop_weights mode e)) (snd (pop_weights mode e)))
                          (filter (survives cy (get_recent_only p)) catalog)))
            [] {})"
  by (simp add: demo_recommend_def scored_candidates_Inr)

lemma fst_entry_of: "fst (entry_of cy g t ro mode a b rec) = rec"
  by (simp add: entry_of_def Let_def)

lemma map_fst_entry_of: "map fst (map (entry_of cy g t ro mode a b) bs) = bs"
  by (induction bs) (simp_all add: fst_entry_of)

subsection \<open>Subsequences\<close>

lemma subseq_set: "subseq xs ys \<Longrightarrow> set xs \<subseteq> set ys"
  by (induction rule: list_emb.induct) auto

lemma subseq_length: "subseq xs ys \<Longrightarrow> length xs \<le> length ys"
  by (induction rule: list_emb.induct) auto

lemma subseq_sorted_wrt: "subseq xs ys \<Longrightarrow> sorted_wrt P ys \<Longrightarrow> sorted_wrt P xs"
proof (induction rule: list_emb.induct)
  case (list_emb_Nil ys)
  then show ?case by simp
next
  case (list_emb_Cons xs ys y)
  then show ?case by simp
next
  case (list_emb_Cons2 x y xs ys)
  then have "subseq xs ys" "x = y" by simp_all
  then have "set xs \<subseteq> set ys" by (simp add: subseq_set)
  with list_emb_Cons2 show ?case by auto
qed

lemma subseq_distinct: "subseq xs ys \<Longrightarrow> distinct ys \<Longrightarrow> distinct xs"
proof (induction rule: list_emb.induct)
  case (list_emb_Nil ys)
  then show ?case by simp
next
  case (list_emb_Cons xs ys y)
  then show ?case by simp
next
  case (list_emb_Cons2 x y xs ys)
  then have "set xs \<subseteq> set ys" by (simp add: subseq_set)
  with list_emb_Cons2 show ?case by auto
qed

subsection \<open>The ranking\<close>

lemma set_sort_desc: "set (sort_desc xs) = set xs"
  by (simp add: sort_desc_def)

lemma length_sort_desc: "length (sort_desc xs) = length xs"
  by (simp add: sort_desc_def)

lemma sort_desc_Nil: "sort_desc [] = []"
  by (simp add: sort_desc_def)

lemma sorted_sort_desc: "sorted_wrt (\<lambda>x y. score_of x \<ge> score_of y) (sort_desc xs)"
proof -
  have "sorted (map (\<lambda>x. - fst (snd x)) (sort_desc xs))"
    unfolding sort_desc_def by (rule sorted_sort_key)
  then show ?thesis by (simp add: sorted_map score_of_def)
qed

text \<open>Entries of equal score keep the order of the catalog.\<close>

lemma sort_desc_stable:
  "filter (\<lambda>x. score_of x = s) (sort_desc xs) = filter (\<lambda>x. score_of x = s) xs"
proof -
  have "filter (\<lambda>y. - fst (snd y) = - s) (sort_key (\<lambda>x. - fst (snd x)) xs)
          = filter (\<lambda>y. - fst (snd y) = - s) xs"
    by (rule sort_key_stable)
  then show ?thesis by (simp add: sort_desc_def score_of_def)
qed

lemma distinct_map_insort_key:
  "distinct (map g (insort_key f x xs)) \<longleftrightarrow> g x \<notin> g ` set xs \<and> distinct (map g xs)"
  by (induction xs) (auto simp: set_insort_key)

lemma distinct_map_sort_key: "distinct (map g (sort_key f xs)) \<longleftrightarrow> distinct (map g xs)"
  by (induction xs) (simp_all add: distinct_map_insort_key)

lemma distinct_map_fst_sort_desc:
  "distinct (map fst (sort_desc xs)) \<longleftrightarrow> distinct (map fst xs)"
  by (simp add: sort_desc_def distinct_map_sort_key)

subsection \<open>The selection loop\<close>

lemma pick_loop_subseq:
  "\<exists>r. pick_loop k cs picked seen = picked @ r \<and> subseq r cs"
proof (induction cs arbitrary: picked seen)
  case Nil
  then show ?case by simp
next
  case (Cons c cs)
  obtain rec sc why where c: "c = (rec, sc, why)" by (cases c) auto
  show ?case
  proof (cases "author rec \<in> seen \<and> int (length picked) < k - 1")
    case True
    from Cons.IH [of picked seen] obtain r where
      "pick_loop k cs picked seen = picked @ r" "subseq r cs" by blast
    with True c show ?thesis by auto
  next
    case False
    show ?thesis
    proof (cases "int (length (picked @ [c])) \<ge> k")
      case True
      have "pick_loop k (c # cs) picked seen = picked @ [c]"
        using False True c by (simp add: Let_def)
      moreover have "subseq [c] (c # cs)" by simp
      ultimately show ?thesis by blast
    next
      case ge: False
      from Cons.IH [of "picked @ [c]" "insert (author rec) seen"] obtain r where
        r: "pick_loop k cs (picked @ [c]) (insert (author rec) seen) = (picked @ [c]) @ r"
           "subseq r cs" by blast
      have "pick_loop k (c # cs) picked seen = picked @ (c # r)"
        using False ge c r by (simp add: Let_def)
      moreover have "subseq (c # r) (c # cs)" using r by simp
      ultimately show ?thesis by blast
    qed
  qed
qed

lemma pick_loop_subseq_Nil: "subseq (pick_loop k cs [] seen) cs"
  using pick_loop_subseq [of k cs "[]" seen] by auto

lemma pick_loop_length:
  "int (length picked) < k \<Longrightarrow> int (length (pick_loop k cs picked seen)) \<le> k"
proof (induction cs arbitrary: picked seen)
  case Nil
  then show ?case by simp
next
  case (Cons c cs)
  obtain rec sc why where c: "c = (rec, sc, why)" by (cases c) auto
  show ?case
  proof (cases "author rec \<in> seen \<and> int (length picked) < k - 1")
    case True
    then show ?thesis using Cons c by simp
  next
    case False
    show ?thesis
    proof (cases "int (length (picked @ [c])) \<ge> k")
      case True
      then have "pick_loop k (c # cs) picked seen = picked @ [c]"
        using False c by (simp add: Let_def)
      then show ?thesis using Cons.prems by simp
    next
      case ge: False
      then have lt: "int (length (picked @ [c])) < k" by simp
      have "pick_loop k (c # cs) picked seen =
              pick_loop k cs (picked @ [c]) (insert (author rec) seen)"
        using False ge c by (simp add: Let_def)
      then show ?thesis using Cons.IH [OF lt] by simp
    qed
  qed
qed

lemma diversity_walk_full:
  "int (length picked) \<ge> k \<Longrightarrow> diversity_walk k cs picked = picked"
  by (cases cs) simp_all

lemma pick_loop_refines:
  "int (length picked) < k \<Longrightarrow> seen = (author \<circ> fst) ` set picked \<Longrightarrow>
     pick_loop k cs picked seen = diversity_walk k cs picked"
proof (induction cs arbitrary: picked seen)
  case Nil
  then show ?case by simp
next
  case (Cons c cs)
  obtain rec sc why where c: "c = (rec, sc, why)" by (cases c) auto
  have notfull: "\<not> int (length picked) \<ge> k" using Cons.prems by simp
  show ?case
  proof (cases "author rec \<in> seen \<and> int (length picked) < k - 1")
    case True
    then have "pick_loop k (c # cs) picked seen = pick_loop k cs picked seen"
      using c by simp
    moreover have "diversity_walk k (c # cs) picked = diversity_walk k cs picked"
      using True notfull c Cons.prems(2) by simp
    ultimately show ?thesis using Cons.IH [OF Cons.prems] by simp
  next
    case False
    then have dw: "diversity_walk k (c # cs) picked = diversity_walk k cs (picked @ [c])"
      using notfull c Cons.prems(2) by auto
    show ?thesis
    proof (cases "int (length (picked @ [c])) \<ge> k")
      case True
      then have "pick_loop k (c # cs) picked seen = picked @ [c]"
        using False c by (simp add: Let_def)
      then show ?thesis using dw diversity_walk_full [OF True] by simp
    next
      case ge: False
      then have lt: "int (length (picked @ [c])) < k" by simp
      have seen': "insert (author rec) seen = (author \<circ> fst) ` set (picked @ [c])"
        using Cons.prems(2) c by auto
      have "pick_loop k (c # cs) picked seen =
              pick_loop k cs (picked @ [c]) (insert (author rec) seen)"
        using False ge c by (simp add: Let_def)
      then show ?thesis using dw Cons.IH [OF lt seen'] by simp
    qed
  qed
qed

lemma pick_loop_all_seen:
  "\<forall>c \<in> set cs. author (fst c) \<in> seen \<Longrightarrow> int (length picked) < k - 1 \<Longrightarrow>
     pick_loop k cs picked seen = picked"
proof (induction cs)
  case Nil
  then show ?case by simp
next
  case (Cons c cs)
  obtain rec sc why where c: "c = (rec, sc, why)" by (cases c) auto
  then have "author rec \<in> seen" using Cons.prems(1) by simp
  then have "pick_loop k (c # cs) picked seen = pick_loop k cs picked seen"
    using c Cons.prems(2) by simp
  then show ?case using Cons by simp
qed

lemma pick_loop_one_author:
  assumes "\<forall>c \<in> set cs. author (fst c) = a" and "3 \<le> k"
  shows "pick_loop k cs [] {} = take 1 cs"
proof (cases cs)
  case Nil
  then show ?thesis by simp
next
  case (Cons c rest)
  obtain rec sc why where c: "c = (rec, sc, why)" by (cases c) auto
  have a: "author rec = a" using assms(1) Cons c by simp
  have "pick_loop k cs [] {} = pick_loop k rest [c] {a}"
    using Cons c a assms(2) by (simp add: Let_def)
  also have "\<dots> = [c]"
  proof (rule pick_loop_all_seen)
    show "\<forall>c \<in> set rest. author (fst c) \<in> {a}" using assms(1) Cons by simp
    show "int (length [c]) < k - 1" using assms(2) by simp
  qed
  finally show ?thesis using Cons by simp
qed

subsection \<open>The stated sub-scores and the source's\<close>

lemma s_tone_eq: "s_tone t bt = tone_match t bt"
  by (cases t) (auto simp: s_tone_def tone_match_def truthy_def)

lemma s_recent_eq: "s_recent cy y = recency_bonus cy y"
  by (simp add: s_recent_def recency_bonus_def RECENT_YEARS_def)

lemma pop_weights_mode_key: "pop_weights (mode_key m) e = coefficients m e"
  by (cases m) (simp_all add: pop_weights_def)

lemma score_of_entry_of:
  "score_of (entry_of cy g t ro (mode_key m) (fst (pop_weights (mode_key m) e))
               (snd (pop_weights (mode_key m) e)) rec) = folded_score cy g t m e rec"
  by (simp add: score_of_def entry_of_def Let_def folded_score_def composite_def
        s_tone_eq s_recent_eq pop_weights_mode_key pop_score_def W_GENRE_def W_TONE_def
        W_RECENT_def)

lemma tags_differ:
  "tag_genre \<noteq> tag_discover" "tag_tone \<noteq> tag_discover" "tag_recent \<noteq> tag_discover"
  "tag_balanced \<noteq> tag_discover" "tag_famous \<noteq> tag_discover" "tag_balanced \<noteq> tag_famous"
  by (simp_all add: tag_genre_def tag_tone_def tag_recent_def tag_discover_def
        tag_balanced_def tag_famous_def)

lemma distinct_DEMO_DB: "distinct DEMO_DB"
  by code_simp

text \<open>
  Scenario 2 of the specification on \<open>DEMO_DB\<close>, current year 2025: with the recent-only
  filter, Balanced mode and \<open>k = 5\<close> the picks are the four books of 2020 and later, in
  the order Project Hail Mary, The Midnight Library, and the two made-up novels.
\<close>

lemma scenario_recent_only:
  "map_sum id (map (title \<circ> fst)) (demo_recommend DEMO_DB 2025 prefs_recent 5 ''balanced'' 0.6)
     = Inr [title demo_book_9, title demo_book_8, title demo_book_11, title demo_book_12]"
  by code_simp

text \<open>
  Scenario 1: fantasy and an adventurous tone, Famous mode, \<open>k = 3\<close>. The top pick is
  Harry Potter; the made-up travel novel and Project Hail Mary follow.
\<close>

lemma scenario_famous_fantasy:
  "map_sum id (map (title \<circ> fst)) (demo_recommend DEMO_DB 2025 prefs_fantasy 3 ''famous'' 0.6)
     = Inr [title demo_book_5, title demo_book_12, title demo_book_9]"
  by code_simp

text \<open>
  Scenario 3: novels, Discover mode at full strength, \<open>k = 3\<close>. The two least popular
  novels lead.
\<close>

lemma scenario_discover_novel:
  "map_sum id (map (title \<circ> fst)) (demo_recommend DEMO_DB 2025 prefs_novel 3 ''discover'' 1.0)
     = Inr [title demo_book_12, title demo_book_11, title demo_book_8]"
  by code_simp

section \<open>The claims\<close>

text \<open>
  Claim C1, as amended. For every mode key of the user interface, the scoring loop yields
  one entry per catalog book that survives the recent-only filter, in catalog order, and
  the score of each entry (in the scored list and in the returned picks) is
  \<open>0.55 * g + 0.30 * t + 0.15 * r + \<alpha> * popularity + \<beta> * (1 - popularity)\<close>, where
  \<open>g\<close> is 0.2 when the user gave no genre and otherwise the number of requested genres
  that the book has, both sides compared in lower case, divided by the number of distinct
  lower-cased requested genres; \<open>t\<close> is 1.0, 0.2 or 0.5 (a tone is specified when it is a
  non-empty string); \<open>r\<close> is 1.0 from \<open>currentYear - 5\<close> on and 0.5 before; and
  \<open>(\<alpha>, \<beta>)\<close> is the mode's pair of coefficients.
\<close>

theorem composite_score_folded:
  "\<exists>scored r.
     scored_candidates catalog cy p (mode_key m) e = Inr scored \<and>
     map fst scored = filter (survives cy (get_recent_only p)) catalog \<and>
     (\<forall>entry \<in> set scored.
        score_of entry = folded_score cy (get_genres p) (tone p) m e (fst entry)) \<and>
     demo_recommend catalog cy p k (mode_key m) e = Inr r \<and>
     (\<forall>entry \<in> set r.
        score_of entry = folded_score cy (get_genres p) (tone p) m e (fst entry))"
proof -
  let ?f = "entry_of cy (get_genres p) (tone p) (get_recent_only p) (mode_key m)
              (fst (pop_weights (mode_key m) e)) (snd (pop_weights (mode_key m) e))"
  let ?scored = "map ?f (filter (survives cy (get_recent_only p)) catalog)"
  let ?r = "pick_loop k (sort_desc ?scored) [] {}"
  have 1: "scored_candidates catalog cy p (mode_key m) e = Inr ?scored"
    by (rule scored_candidates_Inr)
  have 2: "map fst ?scored = filter (survives cy (get_recent_only p)) catalog"
    by (rule map_fst_entry_of)
  have 3: "\<forall>entry \<in> set ?scored.
             score_of entry = folded_score cy (get_genres p) (tone p) m e (fst entry)"
    by (auto simp: score_of_entry_of fst_entry_of)
  have 4: "demo_recommend catalog cy p k (mode_key m) e = Inr ?r"
    by (rule demo_recommend_Inr)
  have "set ?r \<subseteq> set (sort_desc ?scored)"
    by (rule subseq_set [OF pick_loop_subseq_Nil])
  then have "set ?r \<subseteq> set ?scored" by (simp only: set_sort_desc)
  with 3 have 5: "\<forall>entry \<in> set ?r.
             score_of entry = folded_score cy (get_genres p) (tone p) m e (fst entry)"
    by blast
  from 1 2 3 4 5 show ?thesis by blast
qed

theorem composite_score_folded_witness:
  "scored_candidates [book_sf] 2025 prefs_sf (mode_key Famous) 0.6
     = Inr [(book_sf, 1.126, [tag_genre, tag_famous])] \<and>
   folded_score 2025 (get_genres prefs_sf) (tone prefs_sf) Famous 0.6 book_sf = 1.126"
proof -
  from composite_score_folded [of "[book_sf]" 2025 prefs_sf Famous "0.6" 3]
  obtain scored where s: "scored_candidates [book_sf] 2025 prefs_sf (mode_key Famous) 0.6 = Inr scored"
    and f: "\<forall>entry \<in> set scored.
              score_of entry = folded_score 2025 (get_genres prefs_sf) (tone prefs_sf) Famous 0.6 (fst entry)"
    by blast
  have v: "scored_candidates [book_sf] 2025 prefs_sf (mode_key Famous) 0.6
             = Inr [(book_sf, 1.126, [tag_genre, tag_famous])]"
    by code_simp
  from s v have "scored = [(book_sf, 1.126, [tag_genre, tag_famous])]" by simp
  with f have "folded_score 2025 (get_genres prefs_sf) (tone prefs_sf) Famous 0.6 book_sf = 1.126"
    by (simp add: score_of_def)
  with v show ?thesis by blast
qed

text \<open>
  The claim as stated takes the intersection of the genre sets as given. For a request
  \<open>sf\<close> and a book filed under \<open>SF\<close> the source gives genre overlap 1 and the
  score 1.126, the stated formula gives genre overlap 0 and the score 0.576.
\<close>

theorem stated_score_counterexample:
  "scored_candidates [book_sf] 2025 prefs_sf ''famous'' 0.6
     = Inr [(book_sf, 1.126, [tag_genre, tag_famous])] \<and>
   stated_score 2025 [''sf''] None Famous 0.6 book_sf = 0.576"
  by code_simp

text \<open>
  Claim C2, as amended. On a catalog of five books by one author and \<open>k = 3\<close>, the result
  is the first entry of the ranked candidates alone: its length is 1 when a book
  survives the recent-only filter, and 0 otherwise. After the first pick every other
  candidate repeats the author while fewer than \<open>k - 1 = 2\<close> picks are held, so each is
  skipped.
\<close>

theorem one_author_k3:
  assumes "length catalog = 5" and "\<forall>b \<in> set catalog. author b = a"
  shows "\<exists>scored r. scored_candidates catalog cy p mode e = Inr scored \<and>
           demo_recommend catalog cy p 3 mode e = Inr r \<and>
           r = take 1 (sort_desc scored) \<and>
           length r = (if \<exists>b \<in> set catalog. survives cy (get_recent_only p) b then 1 else 0)"
proof -
  let ?f = "entry_of cy (get_genres p) (tone p) (get_recent_only p) mode
              (fst (pop_weights mode e)) (snd (pop_weights mode e))"
  let ?surv = "filter (survives cy (get_recent_only p)) catalog"
  let ?scored = "map ?f ?surv"
  let ?r = "pick_loop 3 (sort_desc ?scored) [] {}"
  have 1: "scored_candidates catalog cy p mode e = Inr ?scored"
    by (rule scored_candidates_Inr)
  have 2: "demo_recommend catalog cy p 3 mode e = Inr ?r"
    by (rule demo_recommend_Inr)
  have "\<forall>c \<in> set (sort_desc ?scored). author (fst c) = a"
    using assms(2) by (auto simp: set_sort_desc fst_entry_of)
  then have 3: "?r = take 1 (sort_desc ?scored)"
    by (rule pick_loop_one_author) simp
  have "length (take 1 (sort_desc ?scored)) = min 1 (length ?surv)"
    by (simp add: length_sort_desc)
  also have "\<dots> = (if \<exists>b \<in> set catalog. survives cy (get_recent_only p) b then 1 else 0)"
  proof (cases "?surv = []")
    case True
    then have "\<not> (\<exists>b \<in> set catalog. survives cy (get_recent_only p) b)"
      by (simp add: filter_empty_conv)
    with True show ?thesis by simp
  next
    case False
    then have "\<exists>b \<in> set catalog. survives cy (get_recent_only p) b"
      by (simp add: filter_empty_conv)
    moreover have "length ?surv \<ge> 1" using False by (cases ?surv) simp_all
    ultimately show ?thesis by simp
  qed
  finally have 4: "length (take 1 (sort_desc ?scored)) =
                     (if \<exists>b \<in> set catalog. survives cy (get_recent_only p) b then 1 else 0)" .
  from 1 2 3 4 show ?thesis by (metis (no_types, lifting))
qed

theorem one_author_k3_witness:
  "length catalog_x = 5 \<and> list_all (\<lambda>b. author b = ''Author X'') catalog_x \<and>
   (\<exists>scored r. scored_candidates catalog_x 2025 prefs_none ''famous'' 0.6 = Inr scored \<and>
           demo_recommend catalog_x 2025 prefs_none 3 ''famous'' 0.6 = Inr r \<and>
           r = take 1 (sort_desc scored) \<and>
           length r = (if \<exists>b \<in> set catalog_x. survives 2025 (get_recent_only prefs_none) b then 1 else 0))"
proof -
  have h1: "length catalog_x = 5" by (simp add: catalog_x_def)
  have h2: "\<forall>b \<in> set catalog_x. author b = ''Author X''"
    by (simp add: catalog_x_def book_x_def)
  have h3: "list_all (\<lambda>b. author b = ''Author X'') catalog_x"
    using h2 by (simp only: list_all_iff)
  show ?thesis using h1 h3 one_author_k3 [OF h1 h2] by blast
qed

text \<open>
  The claim as stated expects three picks; on \<open>catalog_x\<close> the function returns the
  single most popular book.
\<close>

theorem one_author_k3_counterexample:
  "demo_recommend catalog_x 2025 prefs_none 3 ''famous'' 0.6
     = Inr [(book_x ''X2'' 2002 0.9, 0.605, [tag_genre, tag_famous])]"
  by code_simp

text \<open>
  Claim C3. For positive \<open>k\<close> the selection loop of the source, with its separately
  kept set \<^verbatim>\<open>seen_authors\<close> and its test after each append, computes the walk of the
  specification: a candidate whose author is among the picks is skipped exactly while
  fewer than \<open>k - 1\<close> picks are held, and the walk ends at \<open>k\<close> picks or at the end of
  the list. The result of \<^verbatim>\<open>demo_recommend\<close> is this walk over the candidates sorted
  by descending score.
\<close>

theorem pick_loop_is_diversity_walk:
  assumes "0 < k"
  shows "pick_loop k cs [] {} = diversity_walk k cs [] \<and>
         (\<exists>scored. scored_candidates catalog cy p mode e = Inr scored \<and>
            demo_recommend catalog cy p k mode e = Inr (diversity_walk k (sort_desc scored) []))"
proof -
  have w: "pick_loop k xs [] {} = diversity_walk k xs []" for xs
    by (rule pick_loop_refines) (use assms in simp_all)
  show ?thesis
    using w [of cs] by (simp add: demo_recommend_Inr scored_candidates_Inr w)
qed

theorem pick_loop_is_diversity_walk_witness:
  "(0::int) < 3 \<and> pick_loop 3 walk_example [] {} = diversity_walk 3 walk_example [] \<and>
   diversity_walk 3 walk_example [] = [(book_x ''X1'' 2001 0.5, 0.9, []), (book_sf, 0.7, [])]"
proof -
  have h: "(0::int) < 3" by simp
  have v: "diversity_walk 3 walk_example [] =
             [(book_x ''X1'' 2001 0.5, 0.9, []), (book_sf, 0.7, [])]"
    by code_simp
  from h v pick_loop_is_diversity_walk [OF h, of walk_example] show ?thesis by blast
qed

text \<open>
  Claim C4. For positive \<open>k\<close> the result has at most \<open>k\<close> entries and at most as many
  entries as books survive the recent-only filter, and no record occurs twice in it: on
  \<open>DEMO_DB\<close>, the catalog of the source, and on every catalog that lists no record twice.
\<close>

theorem result_bounds:
  assumes "0 < k"
  shows "(\<exists>r. demo_recommend catalog cy p k mode e = Inr r \<and>
            int (length r) \<le> k \<and>
            length r \<le> length (filter (survives cy (get_recent_only p)) catalog) \<and>
            (distinct catalog \<longrightarrow> distinct (map fst r))) \<and>
         (\<exists>r. demo_recommend DEMO_DB cy p k mode e = Inr r \<and> distinct (map fst r))"
proof -
  have general: "\<exists>r. demo_recommend catalog cy p k mode e = Inr r \<and>
            int (length r) \<le> k \<and>
            length r \<le> length (filter (survives cy (get_recent_only p)) catalog) \<and>
            (distinct catalog \<longrightarrow> distinct (map fst r))" for catalog
  proof -
    let ?f = "entry_of cy (get_genres p) (tone p) (get_recent_only p) mode
                (fst (pop_weights mode e)) (snd (pop_weights mode e))"
    let ?surv = "filter (survives cy (get_recent_only p)) catalog"
    let ?scored = "map ?f ?surv"
    let ?r = "pick_loop k (sort_desc ?scored) [] {}"
    have 1: "demo_recommend catalog cy p k mode e = Inr ?r"
      by (rule demo_recommend_Inr)
    have 2: "int (length ?r) \<le> k"
      by (rule pick_loop_length) (use assms in simp)
    have sub: "subseq ?r (sort_desc ?scored)" by (rule pick_loop_subseq_Nil)
    have "length ?r \<le> length (sort_desc ?scored)" by (rule subseq_length [OF sub])
    then have 3: "length ?r \<le> length ?surv" by (simp add: length_sort_desc)
    have 4: "distinct (map fst ?r)" if d: "distinct catalog"
    proof -
      have "map fst ?scored = ?surv" by (rule map_fst_entry_of)
      moreover have "distinct ?surv" using d by simp
      ultimately have "distinct (map fst ?scored)" by (simp only:)
      then have "distinct (map fst (sort_desc ?scored))"
        by (simp only: distinct_map_fst_sort_desc)
      moreover have "subseq (map fst ?r) (map fst (sort_desc ?scored))"
        by (rule subseq_map [OF sub])
      ultimately show ?thesis by (rule subseq_distinct [rotated])
    qed
    from 1 2 3 4 show ?thesis by blast
  qed
  from general [of catalog] general [of DEMO_DB] distinct_DEMO_DB show ?thesis by blast
qed

theorem result_bounds_witness:
  "(0::int) < 3 \<and> distinct DEMO_DB \<and>
   (\<exists>r. demo_recommend DEMO_DB 2025 prefs_none 3 ''famous'' 0.6 = Inr r \<and>
        int (length r) \<le> 3 \<and>
        length r \<le> length (filter (survives 2025 (get_recent_only prefs_none)) DEMO_DB) \<and>
        distinct (map fst r))"
proof -
  have h: "(0::int) < 3" by simp
  from h distinct_DEMO_DB result_bounds [OF h, of DEMO_DB 2025 prefs_none "''famous''" "0.6"]
  show ?thesis by blast
qed

text \<open>
  Claim C5. When \<^verbatim>\<open>recent_only\<close> is true, no book with a year before
  \<open>currentYear - 5\<close> is scored, and none is in the result: the filter removes the book,
  it does not lower its score.
\<close>

theorem recent_only_excludes_old:
  assumes "recent_only p = Some True"
  shows "\<exists>scored r. scored_candidates catalog cy p mode e = Inr scored \<and>
           demo_recommend catalog cy p k mode e = Inr r \<and>
           (\<forall>entry \<in> set scored. \<not> year (fst entry) < cy - 5) \<and>
           (\<forall>entry \<in> set r. \<not> year (fst entry) < cy - 5)"
proof -
  let ?f = "entry_of cy (get_genres p) (tone p) (get_recent_only p) mode
              (fst (pop_weights mode e)) (snd (pop_weights mode e))"
  let ?surv = "filter (survives cy (get_recent_only p)) catalog"
  let ?scored = "map ?f ?surv"
  let ?r = "pick_loop k (sort_desc ?scored) [] {}"
  have ro: "get_recent_only p" using assms by (simp add: get_recent_only_def)
  have 1: "scored_candidates catalog cy p mode e = Inr ?scored"
    by (rule scored_candidates_Inr)
  have 2: "demo_recommend catalog cy p k mode e = Inr ?r"
    by (rule demo_recommend_Inr)
  have 3: "\<forall>entry \<in> set ?scored. \<not> year (fst entry) < cy - 5"
    using ro by (auto simp: fst_entry_of survives_def)
  have "set ?r \<subseteq> set (sort_desc ?scored)"
    by (rule subseq_set [OF pick_loop_subseq_Nil])
  then have "set ?r \<subseteq> set ?scored" by (simp only: set_sort_desc)
  with 3 have 4: "\<forall>entry \<in> set ?r. \<not> year (fst entry) < cy - 5" by blast
  from 1 2 3 4 show ?thesis by blast
qed

theorem recent_only_excludes_old_witness:
  "recent_only prefs_recent = Some True \<and>
   (\<exists>r. demo_recommend DEMO_DB 2025 prefs_recent 5 ''balanced'' 0.6 = Inr r \<and>
      length r = 4 \<and> list_all (\<lambda>entry. 2020 \<le> year (fst entry)) r)"
proof -
  have h: "recent_only prefs_recent = Some True" by (simp add: prefs_recent_def)
  from recent_only_excludes_old [OF h, of DEMO_DB 2025 "''balanced''" "0.6" 5]
  obtain r where r: "demo_recommend DEMO_DB 2025 prefs_recent 5 ''balanced'' 0.6 = Inr r"
    and y: "\<forall>entry \<in> set r. \<not> year (fst entry) < 2025 - 5" by blast
  have "map_sum id length (demo_recommend DEMO_DB 2025 prefs_recent 5 ''balanced'' 0.6) = Inr 4"
    by code_simp
  then have l: "length r = 4" using r by simp
  have "list_all (\<lambda>entry. 2020 \<le> year (fst entry)) r"
    using y by (simp add: list_all_iff not_less)
  with h r l show ?thesis by blast
qed

text \<open>
  Claim C6. In every result, the score of a pick is at least the score of the pick that
  follows it.
\<close>

theorem result_descending:
  "\<exists>r. demo_recommend catalog cy p k mode e = Inr r \<and>
       (\<forall>i. Suc i < length r \<longrightarrow> score_of (r ! i) \<ge> score_of (r ! Suc i))"
proof -
  let ?f = "entry_of cy (get_genres p) (tone p) (get_recent_only p) mode
              (fst (pop_weights mode e)) (snd (pop_weights mode e))"
  let ?scored = "map ?f (filter (survives cy (get_recent_only p)) catalog)"
  let ?r = "pick_loop k (sort_desc ?scored) [] {}"
  have 1: "demo_recommend catalog cy p k mode e = Inr ?r"
    by (rule demo_recommend_Inr)
  have sw: "sorted_wrt (\<lambda>x y. score_of x \<ge> score_of y) ?r"
    by (rule subseq_sorted_wrt [OF pick_loop_subseq_Nil sorted_sort_desc])
  have "score_of (?r ! i) \<ge> score_of (?r ! Suc i)" if "Suc i < length ?r" for i
    using sorted_wrt_nth_less [OF sw _ that, of i] by simp
  then have "\<forall>i. Suc i < length ?r \<longrightarrow> score_of (?r ! i) \<ge> score_of (?r ! Suc i)"
    by blast
  with 1 show ?thesis by blast
qed

theorem result_descending_witness:
  "\<exists>r. demo_recommend catalog_x 2025 prefs_none 2 ''famous'' 0.6 = Inr r \<and>
       Suc 0 < length r \<and> score_of (r ! 0) \<ge> score_of (r ! Suc 0)"
proof -
  from result_descending [of catalog_x 2025 prefs_none 2 "''famous''" "0.6"]
  obtain r where r: "demo_recommend catalog_x 2025 prefs_none 2 ''famous'' 0.6 = Inr r"
    and d: "\<forall>i. Suc i < length r \<longrightarrow> score_of (r ! i) \<ge> score_of (r ! Suc i)"
    by blast
  have "map_sum id length (demo_recommend catalog_x 2025 prefs_none 2 ''famous'' 0.6) = Inr 2"
    by code_simp
  then have l: "Suc 0 < length r" using r by simp
  with d have "score_of (r ! 0) \<ge> score_of (r ! Suc 0)" by blast
  with r l show ?thesis by blast
qed



text \<open>
  Claim C8. \<^verbatim>\<open>demo_recommend\<close> returns a result, never the division error, for every
  catalog, preferences, \<open>k\<close>, mode string and real exploration strength; on the empty
  catalog, and when no book survives the recent-only filter, the result is empty.
\<close>

theorem never_raises:
  "(\<exists>r. demo_recommend catalog cy p k mode e = Inr r) \<and>
   demo_recommend [] cy p k mode e = Inr [] \<and>
   ((\<forall>b \<in> set catalog. \<not> survives cy (get_recent_only p) b) \<longrightarrow>
      demo_recommend catalog cy p k mode e = Inr [])"
proof -
  have "filter (survives cy (get_recent_only p)) catalog = []"
    if "\<forall>b \<in> set catalog. \<not> survives cy (get_recent_only p) b"
    using that by (simp add: filter_empty_conv)
  then show ?thesis by (simp add: demo_recommend_Inr sort_desc_Nil)
qed

theorem never_raises_witness:
  "list_all (\<lambda>b. \<not> survives 2025 (get_recent_only prefs_recent) b) catalog_x \<and>
   demo_recommend catalog_x 2025 prefs_recent 3 ''famous'' 0.6 = Inr []"
proof -
  have h: "\<forall>b \<in> set catalog_x. \<not> survives 2025 (get_recent_only prefs_recent) b"
    by (simp add: catalog_x_def book_x_def survives_def get_recent_only_def prefs_recent_def)
  have h': "list_all (\<lambda>b. \<not> survives 2025 (get_recent_only prefs_recent) b) catalog_x"
    using h by (simp only: list_all_iff)
  from h h' never_raises [of catalog_x 2025 prefs_recent 3 "''famous''" "0.6"]
  show ?thesis by blast
qed

text \<open>
  Claim C10. A mode string other than \<open>famous\<close>, \<open>balanced\<close> and \<open>discover\<close> is
  accepted: every surviving book is scored with the Discover coefficients
  \<open>(0, explore_strength)\<close>, and the rationale of every candidate ends with the Balanced
  tag and does not hold the Discover tag.
\<close>

theorem unknown_mode:
  assumes "mode \<notin> {''famous'', ''balanced'', ''discover''}"
  shows "\<exists>scored r.
     scored_candidates catalog cy p mode e = Inr scored \<and>
     map fst scored = filter (survives cy (get_recent_only p)) catalog \<and>
     demo_recommend catalog cy p k mode e = Inr r \<and> set r \<subseteq> set scored \<and>
     (\<forall>entry \<in> set scored.
        score_of entry = folded_score cy (get_genres p) (tone p) Discover e (fst entry) \<and>
        last (snd (snd entry)) = tag_balanced \<and>
        tag_discover \<notin> set (snd (snd entry)))"
proof -
  let ?f = "entry_of cy (get_genres p) (tone p) (get_recent_only p) mode
              (fst (pop_weights mode e)) (snd (pop_weights mode e))"
  let ?scored = "map ?f (filter (survives cy (get_recent_only p)) catalog)"
  let ?r = "pick_loop k (sort_desc ?scored) [] {}"
  have m: "mode \<noteq> ''famous''" "mode \<noteq> ''balanced''" "mode \<noteq> ''discover''"
    using assms by simp_all
  have w: "pop_weights mode e = (0, e)" using m by (simp add: pop_weights_def)
  have 1: "scored_candidates catalog cy p mode e = Inr ?scored"
    by (rule scored_candidates_Inr)
  have 2: "map fst ?scored = filter (survives cy (get_recent_only p)) catalog"
    by (rule map_fst_entry_of)
  have 3: "demo_recommend catalog cy p k mode e = Inr ?r"
    by (rule demo_recommend_Inr)
  have "set ?r \<subseteq> set (sort_desc ?scored)"
    by (rule subseq_set [OF pick_loop_subseq_Nil])
  then have 4: "set ?r \<subseteq> set ?scored" by (simp only: set_sort_desc)
  have sc: "score_of (?f b) = folded_score cy (get_genres p) (tone p) Discover e b" for b
    by (simp add: w score_of_def entry_of_def Let_def folded_score_def composite_def
          s_tone_eq s_recent_eq pop_score_def W_GENRE_def W_TONE_def W_RECENT_def)
  have tg: "last (snd (snd (?f b))) = tag_balanced \<and> tag_discover \<notin> set (snd (snd (?f b)))"
    for b
    using m tags_differ by (simp add: entry_of_def Let_def why_tags_def)
  have 5: "\<forall>entry \<in> set ?scored.
        score_of entry = folded_score cy (get_genres p) (tone p) Discover e (fst entry) \<and>
        last (snd (snd entry)) = tag_balanced \<and>
        tag_discover \<notin> set (snd (snd entry))"
    using sc tg by (auto simp: fst_entry_of)
  from 1 2 3 4 5 show ?thesis by blast
qed

theorem unknown_mode_witness:
  "''surprise'' \<notin> {''famous'', ''balanced'', ''discover''} \<and>
   (\<exists>scored. scored_candidates DEMO_DB 2025 prefs_none ''surprise'' 0.6 = Inr scored \<and>
      length scored = 12 \<and>
      list_all (\<lambda>entry.
        score_of entry = folded_score 2025 [] None Discover 0.6 (fst entry) \<and>
        last (snd (snd entry)) = tag_balanced \<and>
        tag_discover \<notin> set (snd (snd entry))) scored)"
proof -
  have h: "''surprise'' \<notin> {''famous'', ''balanced'', ''discover''}" by simp
  from unknown_mode [OF h, of DEMO_DB 2025 prefs_none "0.6" 3]
  obtain scored where s: "scored_candidates DEMO_DB 2025 prefs_none ''surprise'' 0.6 = Inr scored"
    and m: "map fst scored = filter (survives 2025 (get_recent_only prefs_none)) DEMO_DB"
    and a: "\<forall>entry \<in> set scored.
        score_of entry = folded_score 2025 (get_genres prefs_none) (tone prefs_none) Discover 0.6 (fst entry) \<and>
        last (snd (snd entry)) = tag_balanced \<and>
        tag_discover \<notin> set (snd (snd entry))"
    by blast
  have "length (map fst scored) = 12"
    unfolding m by (simp add: survives_def get_recent_only_def prefs_none_def DEMO_DB_def)
  then have l: "length scored = 12" by simp
  have "list_all (\<lambda>entry.
        score_of entry = folded_score 2025 [] None Discover 0.6 (fst entry) \<and>
        last (snd (snd entry)) = tag_balanced \<and>
        tag_discover \<notin> set (snd (snd entry))) scored"
    using a by (simp add: list_all_iff get_genres_def prefs_none_def)
  with h s l show ?thesis by blast
qed

end
